theory Spec2Isabelle
  imports Main "HOL-Library.Word" "HOL-Library.Sublist"
begin

section \<open>Strings\<close>

text \<open>
  A JavaScript string is a sequence of UTF-16 code units; \<open>startsWith\<close>, \<open>+\<close> and a
  regular expression without the \<open>u\<close> flag all work on code units.  \<open>js\<close> reads an
  ASCII literal of the source as such a sequence.
\<close>

type_synonym jsstring = "16 word list"

definition js :: "string \<Rightarrow> jsstring" where
  "js s = map of_char s"

text \<open>\<open>String.prototype.startsWith\<close>: \<open>s.startsWith(p)\<close>.\<close>

definition startsWith :: "jsstring \<Rightarrow> jsstring \<Rightarrow> bool" where
  "startsWith s p = prefix p s"

text \<open>
  The character classes of the pattern.  \<open>\\s\<close> is WhiteSpace and LineTerminator of
  ECMAScript (TAB, LF, VT, FF, CR, SP, NBSP, U+1680, U+2000 to U+200A, U+2028, U+2029,
  U+202F, U+205F, U+3000, U+FEFF) and \<open>\\S\<close> its complement; \<open>\\w\<close> is
  \<open>[A-Za-z0-9_]\<close>.
\<close>

definition regex_s :: "16 word \<Rightarrow> bool" where
  "regex_s c \<longleftrightarrow>
     c = 0x09 \<or> c = 0x0A \<or> c = 0x0B \<or> c = 0x0C \<or> c = 0x0D \<or> c = 0x20 \<or> c = 0xA0 \<or>
     c = 0x1680 \<or> (0x2000 \<le> c \<and> c \<le> 0x200A) \<or> c = 0x2028 \<or> c = 0x2029 \<or>
     c = 0x202F \<or> c = 0x205F \<or> c = 0x3000 \<or> c = 0xFEFF"

definition regex_S :: "16 word \<Rightarrow> bool" where
  "regex_S c \<longleftrightarrow> \<not> regex_s c"

definition regex_w :: "16 word \<Rightarrow> bool" where
  "regex_w c \<longleftrightarrow>
     (0x41 \<le> c \<and> c \<le> 0x5A) \<or> (0x61 \<le> c \<and> c \<le> 0x7A) \<or> (0x30 \<le> c \<and> c \<le> 0x39) \<or> c = 0x5F"

section \<open>Scenes\<close>

text \<open>
  \<open>SceneDefinition\<close> and its \<open>ppt\<close> descriptor are types of the whiteboard SDK: a scene
  has an optional name and an optional descriptor, the descriptor a source string and
  dimensions.  The bridge reads \<open>name\<close>, \<open>ppt\<close> and \<open>ppt.src\<close> only.
\<close>

record PptDescription =
  src :: jsstring
  width :: int
  height :: int

record SceneDefinition =
  name :: "jsstring option"
  ppt :: "PptDescription option"

section \<open>The pattern \<open>pptSrcRE\<close>\<close>

text \<open>
  \<^verbatim>\<open>/^pptx?(?<prefix>:\/\/\S+?dynamicConvert)\/(?<taskId>\w+)\//\<close>

  The matcher below follows the backtracking order of \<open>exec\<close>, one function for each
  part of the pattern, each applied to the text that is left and answering \<open>None\<close> when
  the rest of the pattern fails there.  The pattern starts with \<open>^\<close> and has no flags,
  so only the attempt at position 0 can succeed.
\<close>

datatype groups = Groups (prefix_group: jsstring) (taskId_group: jsstring)

text \<open>A literal piece of the pattern: the text left after it, when it is there.\<close>

definition literal :: "jsstring \<Rightarrow> jsstring \<Rightarrow> jsstring option" where
  "literal p s = (if prefix p s then Some (drop (length p) s) else None)"

text \<open>
  \<^verbatim>\<open>\/(?<taskId>\w+)\/\<close>: a slash, then \<open>\\w+\<close>, greedy, then a slash.  The longest run
  of word characters is tried first; a shorter one is followed by a word character,
  never by the slash, so giving characters back cannot succeed where the longest run
  has failed.
\<close>

definition taskId_part :: "jsstring \<Rightarrow> jsstring option" where
  "taskId_part s =
     (case literal (js ''/'') s of
        None \<Rightarrow> None
      | Some r \<Rightarrow>
          (let w = takeWhile regex_w r in
           if w = [] then None
           else (case literal (js ''/'') (dropWhile regex_w r) of
                   None \<Rightarrow> None
                 | Some _ \<Rightarrow> Some w)))"

text \<open>What follows \<open>\\S+?\<close>: the literal \<open>dynamicConvert\<close>, the end of the group, the task part.\<close>

definition after_S :: "jsstring \<Rightarrow> jsstring option" where
  "after_S s =
     (case literal (js ''dynamicConvert'') s of
        None \<Rightarrow> None
      | Some r \<Rightarrow> taskId_part r)"

text \<open>
  \<open>\\S+?\<close>: one non-space character at least, and lazy: after each character taken the
  rest of the pattern is tried, and only when it fails is one more character taken.
  \<open>acc\<close> is what \<open>\\S+?\<close> has taken so far; the answer is what it took in the end and
  the task identifier.
\<close>

fun lazy_S :: "jsstring \<Rightarrow> jsstring \<Rightarrow> (jsstring \<times> jsstring) option" where
  "lazy_S acc [] = None"
| "lazy_S acc (c # r) =
     (if \<not> regex_S c then None
      else (case after_S r of
              Some t \<Rightarrow> Some (acc @ [c], t)
            | None \<Rightarrow> lazy_S (acc @ [c]) r))"

text \<open>\<^verbatim>\<open>(?<prefix>:\/\/\S+?dynamicConvert)\<close> and the rest of the pattern.\<close>

definition prefix_part :: "jsstring \<Rightarrow> groups option" where
  "prefix_part s =
     (case literal (js ''://'') s of
        None \<Rightarrow> None
      | Some r \<Rightarrow>
          (case lazy_S [] r of
             None \<Rightarrow> None
           | Some (p, t) \<Rightarrow> Some (Groups (js ''://'' @ p @ js ''dynamicConvert'') t)))"

text \<open>
  \<open>x?\<close> is greedy: with an \<open>x\<close> there, the rest of the pattern is tried after it first,
  and without it when that fails.
\<close>

definition x_opt :: "jsstring \<Rightarrow> groups option" where
  "x_opt s =
     (case literal (js ''x'') s of
        None \<Rightarrow> prefix_part s
      | Some r \<Rightarrow> (case prefix_part r of Some g \<Rightarrow> Some g | None \<Rightarrow> prefix_part s))"

definition pptSrcRE_exec :: "jsstring \<Rightarrow> groups option" where
  "pptSrcRE_exec s =
     (case literal (js ''ppt'') s of
        None \<Rightarrow> None
      | Some r \<Rightarrow> x_opt r)"

section \<open>The slide-source classifier\<close>

record SlideParams =
  scenesWithoutPPT :: "SceneDefinition list"
  taskId :: jsstring
  url :: jsstring

text \<open>The object \<open>{name: v.name}\<close>: the name alone, no \<open>ppt\<close>.\<close>

definition name_only :: "SceneDefinition \<Rightarrow> SceneDefinition" where
  "name_only v = \<lparr>name = name v, ppt = None\<rparr>"

text \<open>
  The loop of \<open>makeSlideParams\<close> in the bridge classes (\<open>RoomAsyncBridge\<close> and its
  siblings).  \<open>tid\<close> and \<open>u\<close> are the variables \<open>taskId\<close> and \<open>url\<close>, both \<open>""\<close> at
  the start; \<open>continue\<close> is the recursive call, \<open>break\<close> the return.
\<close>

fun slide_loop :: "jsstring \<Rightarrow> jsstring \<Rightarrow> SceneDefinition list \<Rightarrow> jsstring \<times> jsstring" where
  "slide_loop tid u [] = (tid, u)"
| "slide_loop tid u (v # scenes) =
     (case ppt v of
        None \<Rightarrow> slide_loop tid u scenes
      | Some p \<Rightarrow>
          if \<not> startsWith (src p) (js ''ppt'') then slide_loop tid u scenes
          else (case pptSrcRE_exec (src p) of
                  None \<Rightarrow> slide_loop tid u scenes
                | Some g \<Rightarrow> (taskId_group g, js ''https'' @ prefix_group g)))"

definition makeSlideParams :: "SceneDefinition list \<Rightarrow> SlideParams" where
  "makeSlideParams scenes =
     (let out = map name_only scenes;
          (tid, u) = slide_loop [] [] scenes
      in \<lparr>scenesWithoutPPT = out, taskId = tid, url = u\<rparr>)"

text \<open>
  \<open>makeSlideParams\<close> of \<open>Room.ts\<close>.  Here the name-only scenes are pushed inside the
  loop, under the comment \<open>make sure scenesWithoutPPT.length === scenes.length\<close>, and the
  \<open>break\<close> at the first match leaves the loop before the scenes after it are pushed.
  \<open>out\<close> is the array \<open>scenesWithoutPPT\<close>.
\<close>

fun Room_slide_loop ::
  "SceneDefinition list \<Rightarrow> jsstring \<Rightarrow> jsstring \<Rightarrow> SceneDefinition list \<Rightarrow> SlideParams" where
  "Room_slide_loop out tid u [] = \<lparr>scenesWithoutPPT = out, taskId = tid, url = u\<rparr>"
| "Room_slide_loop out tid u (v # scenes) =
     (let out' = out @ [name_only v] in
      case ppt v of
        None \<Rightarrow> Room_slide_loop out' tid u scenes
      | Some p \<Rightarrow>
          if \<not> startsWith (src p) (js ''ppt'') then Room_slide_loop out' tid u scenes
          else (case pptSrcRE_exec (src p) of
                  None \<Rightarrow> Room_slide_loop out' tid u scenes
                | Some g \<Rightarrow>
                    \<lparr>scenesWithoutPPT = out', taskId = taskId_group g,
                     url = js ''https'' @ prefix_group g\<rparr>))"

definition Room_makeSlideParams :: "SceneDefinition list \<Rightarrow> SlideParams" where
  "Room_makeSlideParams scenes = Room_slide_loop [] [] [] scenes"

section \<open>Values, exceptions and promises\<close>

text \<open>
  A value of type \<open>any\<close> that crosses the bridge.  The numbers the modelled methods
  pass are counts and indices.
\<close>

datatype jsany =
    JUndefined
  | JNull
  | JBool bool
  | JNum int
  | JStr jsstring
  | JArr "jsany list"
  | JObj "(jsstring \<times> jsany) list"

text \<open>
  What a collaborator throws is an \<open>Error\<close> with its \<open>message\<close> and \<open>stack\<close>.  What
  the engine throws when a property of \<open>undefined\<close> is read is \<open>TypeError\<close>; its
  text depends on the engine.
\<close>

record Error =
  message :: jsstring
  stack :: jsstring

datatype thrown = Thrown Error | TypeError

text \<open>
  How a promise settles in the end: fulfilled with a value, rejected with a reason
  (\<open>None\<close> for \<open>Promise.reject()\<close>, which gives no reason), or never.
\<close>

datatype 'a promise = Fulfilled 'a | Rejected "thrown option" | Pending

section \<open>The collaborators\<close>

text \<open>
  The window manager and the room are objects of external libraries.  A bridge method
  makes one call to one of them, and what that call does is not in this repository:
  each is a function from the arguments to the outcome, \<open>Inl\<close> or \<open>Some\<close> an
  \<open>Error\<close> that the call throws.
\<close>

record AddAppOptions =
  scenePath :: "jsstring option"
  title :: "jsstring option"
  scenes :: "SceneDefinition list option"

record AddAppParams =
  kind :: jsstring
  options :: AddAppOptions
  attributes :: jsany

record Manager =
  manager_addApp :: "AddAppParams \<Rightarrow> Error + jsstring option promise"
  manager_setMainViewScenePath :: "jsstring \<Rightarrow> Error option"
  manager_setMainViewSceneIndex :: "int \<Rightarrow> Error option"
  manager_nextPage :: "Error + bool promise"
  manager_prevPage :: "Error + bool promise"

text \<open>
  \<open>sceneState_index\<close> and \<open>sceneState_scenes\<close> are \<open>room.state.sceneState.index\<close> and
  \<open>room.state.sceneState.scenes\<close> as the method reads them.
\<close>

record Room =
  sceneState_index :: int
  sceneState_scenes :: "SceneDefinition list"
  room_redo :: "Error + int"
  room_undo :: "Error + int"
  room_setScenePath :: "jsstring \<Rightarrow> Error option"
  room_setSceneIndex :: "int \<Rightarrow> Error option"
  room_cleanCurrentScene :: "bool option \<Rightarrow> Error option"

section \<open>What a bridge method does\<close>

text \<open>
  A run of a bridge method is the sequence of its calls, in order: to the classifier,
  to a collaborator, to the console, to the logger of \<open>registerRoom\<close>, and to the
  response callback of the host, those made later from a promise's \<open>then\<close> included;
  and the exception that leaves the method, if one does.
\<close>

datatype response = Value jsany | JSON_stringify jsany

datatype logged =
    Log_string jsstring
  | Log_options AddAppOptions
  | Log_any jsany
  | Log_boolean "bool option"

datatype event =
    Call_makeSlideParams "SceneDefinition list"
  | Manager_addApp AddAppParams
  | Manager_setMainViewScenePath jsstring
  | Manager_setMainViewSceneIndex int
  | Manager_nextPage
  | Manager_prevPage
  | Room_redo
  | Room_undo
  | Room_setScenePath jsstring
  | Room_setSceneIndex int
  | Room_cleanCurrentScene "bool option"
  | Console_log thrown
  | Logger jsstring "logged list"
  | ResponseCallback response

record run =
  events :: "event list"
  uncaught :: "thrown option"

definition returns :: "event list \<Rightarrow> run" where
  "returns es = \<lparr>events = es, uncaught = None\<rparr>"

definition throws :: "event list \<Rightarrow> thrown \<Rightarrow> run" where
  "throws es e = \<lparr>events = es, uncaught = Some e\<rparr>"

text \<open>\<open>promise.then(result => responseCallback(result))\<close>, with no \<open>catch\<close>.\<close>

definition then_respond :: "('a \<Rightarrow> jsany) \<Rightarrow> 'a promise \<Rightarrow> event list" where
  "then_respond val promise =
     (case promise of
        Fulfilled result \<Rightarrow> [ResponseCallback (Value (val result))]
      | Rejected _ \<Rightarrow> []
      | Pending \<Rightarrow> [])"

text \<open>An application identifier is \<open>string | undefined\<close>.\<close>

definition appId_value :: "jsstring option \<Rightarrow> jsany" where
  "appId_value appId = (case appId of None \<Rightarrow> JUndefined | Some a \<Rightarrow> JStr a)"

text \<open>The object \<open>{ __error: { message: e.message, jsStack: e.stack } }\<close>.\<close>

definition error_payload :: "Error \<Rightarrow> jsany" where
  "error_payload e =
     JObj [(js ''__error'', JObj [(js ''message'', JStr (message e)), (js ''jsStack'', JStr (stack e))])]"

section \<open>Creating an app\<close>

text \<open>
  Modelled from the spec: the enum member \<open>BuiltinApps.DocsViewer\<close> of the window-manager
  library, which is not under src/.  The spec calls it the generic document viewer; the
  library's name for it is \<open>DocsViewer\<close>.
\<close>

definition BuiltinApps_DocsViewer :: jsstring where
  "BuiltinApps_DocsViewer = js ''DocsViewer''"

text \<open>
  \<open>return window.manager!.addApp(request)\<close> inside the \<open>try\<close> of \<open>addSlideApp\<close>, with its
  \<open>catch\<close>: a throw, of the call or of reading \<open>addApp\<close> from a manager that is not
  there, is logged to the console and answered with \<open>Promise.reject()\<close>.
\<close>

definition try_addApp ::
  "Manager option \<Rightarrow> AddAppParams \<Rightarrow> event list \<times> jsstring option promise" where
  "try_addApp manager request =
     (case manager of
        None \<Rightarrow> ([Console_log TypeError], Rejected None)
      | Some m \<Rightarrow>
          (case manager_addApp m request of
             Inl err \<Rightarrow> ([Manager_addApp request, Console_log (Thrown err)], Rejected None)
           | Inr promise \<Rightarrow> ([Manager_addApp request], promise)))"

text \<open>
  \<open>addSlideApp\<close> is the same text in both files and calls the \<open>makeSlideParams\<close> of
  its own file, here the argument \<open>classifier\<close>.
\<close>

definition addSlideApp_with ::
  "(SceneDefinition list \<Rightarrow> SlideParams) \<Rightarrow> Manager option \<Rightarrow> jsstring option \<Rightarrow> jsstring option \<Rightarrow>
     SceneDefinition list \<Rightarrow> event list \<times> jsstring option promise" where
  "addSlideApp_with classifier manager scenePath' title' scenes' =
     (let p = classifier scenes';
          (es, promise) =
            (if taskId p \<noteq> [] \<and> url p \<noteq> [] then
               try_addApp manager
                 \<lparr>kind = js ''Slide'',
                  options = \<lparr>scenePath = scenePath', title = title', scenes = Some (scenesWithoutPPT p)\<rparr>,
                  attributes = JObj [(js ''taskId'', JStr (taskId p)), (js ''url'', JStr (url p))]\<rparr>
             else
               try_addApp manager
                 \<lparr>kind = BuiltinApps_DocsViewer,
                  options = \<lparr>scenePath = scenePath', title = title', scenes = Some scenes'\<rparr>,
                  attributes = JUndefined\<rparr>)
      in (Call_makeSlideParams scenes' # es, promise))"

definition addSlideApp ::
  "Manager option \<Rightarrow> jsstring option \<Rightarrow> jsstring option \<Rightarrow> SceneDefinition list \<Rightarrow>
     event list \<times> jsstring option promise" where
  "addSlideApp = addSlideApp_with makeSlideParams"

definition Room_addSlideApp ::
  "Manager option \<Rightarrow> jsstring option \<Rightarrow> jsstring option \<Rightarrow> SceneDefinition list \<Rightarrow>
     event list \<times> jsstring option promise" where
  "Room_addSlideApp = addSlideApp_with Room_makeSlideParams"

text \<open>
  The body of \<open>addApp\<close>, the same in both files.  \<open>manager\<close> is \<open>window.manager\<close>.
  With \<open>opts.scenes\<close> undefined the classifier throws a \<open>TypeError\<close> at its first
  use of the list, outside the \<open>try\<close> of \<open>addSlideApp\<close>.
\<close>

definition addApp_with ::
  "(Manager option \<Rightarrow> jsstring option \<Rightarrow> jsstring option \<Rightarrow> SceneDefinition list \<Rightarrow>
      event list \<times> jsstring option promise) \<Rightarrow>
   Manager option \<Rightarrow> jsstring \<Rightarrow> AddAppOptions \<Rightarrow> jsany \<Rightarrow> run" where
  "addApp_with slideApp manager kind' options' attributes' =
     (case manager of
        None \<Rightarrow> returns []
      | Some m \<Rightarrow>
          if kind' = js ''Slide'' then
            (case scenes options' of
               None \<Rightarrow> throws [] TypeError
             | Some scenes' \<Rightarrow>
                 (let (es, promise) = slideApp manager (scenePath options') (title options') scenes'
                  in returns (es @ then_respond appId_value promise)))
          else
            (let request = \<lparr>kind = kind', options = options', attributes = attributes'\<rparr> in
             case manager_addApp m request of
               Inl err \<Rightarrow> throws [Manager_addApp request] (Thrown err)
             | Inr promise \<Rightarrow> returns (Manager_addApp request # then_respond appId_value promise)))"

text \<open>\<open>RoomAsyncBridge.addApp\<close>.\<close>

definition addApp :: "Manager option \<Rightarrow> jsstring \<Rightarrow> AddAppOptions \<Rightarrow> jsany \<Rightarrow> run" where
  "addApp = addApp_with addSlideApp"

text \<open>\<open>addApp\<close> as \<open>registerRoom\<close> of \<open>Room.ts\<close> registers it: the logger is called first.\<close>

definition registerRoom_addApp :: "Manager option \<Rightarrow> jsstring \<Rightarrow> AddAppOptions \<Rightarrow> jsany \<Rightarrow> run" where
  "registerRoom_addApp manager kind' options' attributes' =
     (let r = addApp_with Room_addSlideApp manager kind' options' attributes' in
      r\<lparr>events :=
          Logger (js ''addApp'') [Log_string kind', Log_options options', Log_any attributes'] # events r\<rparr>)"

section \<open>Paging, scene paths, undo and redo, cleaning\<close>



text \<open>
  \<open>setScenePath\<close> and \<open>setSceneIndex\<close> make their call inside \<open>try\<close>; the \<open>catch\<close>
  answers with the error payload.
\<close>

definition setScenePath :: "Manager option \<Rightarrow> Room \<Rightarrow> jsstring \<Rightarrow> run" where
  "setScenePath manager room scenePath' =
     (let (call, outcome) =
            (case manager of
               Some m \<Rightarrow> (Manager_setMainViewScenePath scenePath', manager_setMainViewScenePath m scenePath')
             | None \<Rightarrow> (Room_setScenePath scenePath', room_setScenePath room scenePath'))
      in case outcome of
           None \<Rightarrow> returns [call, ResponseCallback (JSON_stringify (JObj []))]
         | Some e \<Rightarrow> returns [call, ResponseCallback (JSON_stringify (error_payload e))])"

definition setSceneIndex :: "Manager option \<Rightarrow> Room \<Rightarrow> int \<Rightarrow> run" where
  "setSceneIndex manager room index' =
     (let (call, outcome) =
            (case manager of
               Some m \<Rightarrow> (Manager_setMainViewSceneIndex index', manager_setMainViewSceneIndex m index')
             | None \<Rightarrow> (Room_setSceneIndex index', room_setSceneIndex room index'))
      in case outcome of
           None \<Rightarrow> returns [call, ResponseCallback (JSON_stringify (JObj []))]
         | Some error \<Rightarrow> returns [call, ResponseCallback (JSON_stringify (error_payload error))])"

text \<open>\<open>redo\<close> and \<open>undo\<close> make their call with no \<open>try\<close> around it.\<close>

definition redo :: "Room \<Rightarrow> run" where
  "redo room =
     (case room_redo room of
        Inl err \<Rightarrow> throws [Room_redo] (Thrown err)
      | Inr count \<Rightarrow> returns [Room_redo, ResponseCallback (Value (JNum count))])"

definition undo :: "Room \<Rightarrow> run" where
  "undo room =
     (case room_undo room of
        Inl err \<Rightarrow> throws [Room_undo] (Thrown err)
      | Inr count \<Rightarrow> returns [Room_undo, ResponseCallback (Value (JNum count))])"



section \<open>Reading a run\<close>

text \<open>
  The calls of one kind in a run, in order: those to the classifier with their argument,
  the requests to \<open>manager.addApp\<close>, and what the response callback was given.
\<close>

fun classifier_calls :: "event list \<Rightarrow> SceneDefinition list list" where
  "classifier_calls [] = []"
| "classifier_calls (Call_makeSlideParams scenes' # es) = scenes' # classifier_calls es"
| "classifier_calls (_ # es) = classifier_calls es"

fun addApp_requests :: "event list \<Rightarrow> AddAppParams list" where
  "addApp_requests [] = []"
| "addApp_requests (Manager_addApp request # es) = request # addApp_requests es"
| "addApp_requests (_ # es) = addApp_requests es"

fun responses :: "event list \<Rightarrow> response list" where
  "responses [] = []"
| "responses (ResponseCallback r # es) = r # responses es"
| "responses (_ # es) = responses es"

section \<open>Example data\<close>

text \<open>
  Scenes as a converted presentation has them, and collaborators that accept every call
  or refuse every call.
\<close>

definition slide_scene :: "string \<Rightarrow> string \<Rightarrow> SceneDefinition" where
  "slide_scene n s = \<lparr>name = Some (js n), ppt = Some \<lparr>src = js s, width = 1024, height = 768\<rparr>\<rparr>"

definition plain_scene :: "string \<Rightarrow> SceneDefinition" where
  "plain_scene n = \<lparr>name = Some (js n), ppt = None\<rparr>"

definition example_error :: Error where
  "example_error = \<lparr>message = js ''invalid scene path'', stack = js ''at setScenePath''\<rparr>"

definition example_manager :: Manager where
  "example_manager =
     \<lparr>manager_addApp = (\<lambda>request. Inr (Fulfilled (Some (js ''app-1'')))),
      manager_setMainViewScenePath = (\<lambda>path. None),
      manager_setMainViewSceneIndex = (\<lambda>i. None),
      manager_nextPage = Inr (Fulfilled True),
      manager_prevPage = Inr (Fulfilled True)\<rparr>"

definition failing_manager :: Manager where
  "failing_manager =
     \<lparr>manager_addApp = (\<lambda>request. Inl example_error),
      manager_setMainViewScenePath = (\<lambda>path. Some example_error),
      manager_setMainViewSceneIndex = (\<lambda>i. Some example_error),
      manager_nextPage = Inl example_error,
      manager_prevPage = Inl example_error\<rparr>"


definition failing_room :: Room where
  "failing_room =
     \<lparr>sceneState_index = 0,
      sceneState_scenes = [plain_scene ''1''],
      room_redo = Inl example_error,
      room_undo = Inl example_error,
      room_setScenePath = (\<lambda>path. Some example_error),
      room_setSceneIndex = (\<lambda>i. Some example_error),
      room_cleanCurrentScene = (\<lambda>retainPpt. Some example_error)\<rparr>"


definition example_options :: AddAppOptions where
  "example_options =
     \<lparr>scenePath = Some (js ''/deck''), title = Some (js ''Deck''),
      scenes = Some [slide_scene ''1'' ''ppt://cdn.example.com/dynamicConvert/abc123/1.slide'',
                     slide_scene ''2'' ''ppt://cdn.example.com/dynamicConvert/abc123/2.slide'']\<rparr>"

section \<open>The pattern: what a match looks like\<close>

lemma literal_Some: "literal p s = Some r \<longleftrightarrow> s = p @ r"
  by (auto simp: literal_def prefix_def)

lemma literal_None: "literal p s = None \<longleftrightarrow> \<not> prefix p s"
  by (simp add: literal_def)

lemma taskId_part_Some:
  assumes "taskId_part s = Some t"
  shows "\<exists>rest. s = js ''/'' @ t @ js ''/'' @ rest" and "t \<noteq> []" and "\<forall>c\<in>set t. regex_w c"
proof -
  from assms obtain r k where r: "s = js ''/'' @ r" and t: "t = takeWhile regex_w r"
    and ne: "t \<noteq> []" and k: "dropWhile regex_w r = js ''/'' @ k"
    by (auto simp: taskId_part_def literal_Some Let_def split: option.splits if_splits)
  have "r = t @ js ''/'' @ k"
    using takeWhile_dropWhile_id [of regex_w r] t k by simp
  with r show "\<exists>rest. s = js ''/'' @ t @ js ''/'' @ rest" by auto
  show "t \<noteq> []" by (rule ne)
  show "\<forall>c\<in>set t. regex_w c" using t by (auto dest: set_takeWhileD)
qed

lemma after_S_Some:
  assumes "after_S s = Some t"
  shows "\<exists>rest. s = js ''dynamicConvert'' @ js ''/'' @ t @ js ''/'' @ rest"
    and "t \<noteq> []" and "\<forall>c\<in>set t. regex_w c"
proof -
  from assms obtain r where r: "s = js ''dynamicConvert'' @ r" and tp: "taskId_part r = Some t"
    by (auto simp: after_S_def literal_Some split: option.splits)
  from taskId_part_Some(1) [OF tp] r
  show "\<exists>rest. s = js ''dynamicConvert'' @ js ''/'' @ t @ js ''/'' @ rest" by auto
  show "t \<noteq> []" by (rule taskId_part_Some(2) [OF tp])
  show "\<forall>c\<in>set t. regex_w c" by (rule taskId_part_Some(3) [OF tp])
qed

lemma lazy_S_Some:
  "lazy_S acc r = Some (b, t) \<Longrightarrow>
     \<exists>body rest. b = acc @ body \<and> body \<noteq> [] \<and> (\<forall>c\<in>set body. regex_S c) \<and>
       r = body @ js ''dynamicConvert'' @ js ''/'' @ t @ js ''/'' @ rest \<and>
       t \<noteq> [] \<and> (\<forall>c\<in>set t. regex_w c)"
proof (induction r arbitrary: acc)
  case Nil
  then show ?case by simp
next
  case (Cons c r)
  from Cons.prems have S: "regex_S c" by (simp split: if_splits)
  show ?case
  proof (cases "after_S r")
    case (Some t')
    with Cons.prems S have b: "b = acc @ [c]" and t: "t' = t" by simp_all
    from after_S_Some [OF Some [unfolded t]] obtain rest where
      "r = js ''dynamicConvert'' @ js ''/'' @ t @ js ''/'' @ rest"
      "t \<noteq> []" "\<forall>c\<in>set t. regex_w c" by blast
    with S b have "b = acc @ [c] \<and> [c] \<noteq> [] \<and> (\<forall>c\<in>set [c]. regex_S c) \<and>
       c # r = [c] @ js ''dynamicConvert'' @ js ''/'' @ t @ js ''/'' @ rest \<and>
       t \<noteq> [] \<and> (\<forall>c\<in>set t. regex_w c)" by simp
    then show ?thesis by blast
  next
    case None
    with Cons.prems S have "lazy_S (acc @ [c]) r = Some (b, t)" by simp
    from Cons.IH [OF this] obtain body rest where
      "b = (acc @ [c]) @ body" "\<forall>c\<in>set body. regex_S c"
      "r = body @ js ''dynamicConvert'' @ js ''/'' @ t @ js ''/'' @ rest"
      "t \<noteq> []" "\<forall>c\<in>set t. regex_w c" by blast
    with S have "b = acc @ (c # body) \<and> c # body \<noteq> [] \<and> (\<forall>c\<in>set (c # body). regex_S c) \<and>
       c # r = (c # body) @ js ''dynamicConvert'' @ js ''/'' @ t @ js ''/'' @ rest \<and>
       t \<noteq> [] \<and> (\<forall>c\<in>set t. regex_w c)" by simp
    then show ?thesis by blast
  qed
qed

lemma prefix_part_Some:
  assumes "prefix_part s = Some g"
  shows "\<exists>body rest. body \<noteq> [] \<and> (\<forall>c\<in>set body. regex_S c) \<and>
           prefix_group g = js ''://'' @ body @ js ''dynamicConvert'' \<and>
           s = prefix_group g @ js ''/'' @ taskId_group g @ js ''/'' @ rest \<and>
           taskId_group g \<noteq> [] \<and> (\<forall>c\<in>set (taskId_group g). regex_w c)"
proof -
  from assms obtain r b t where r: "s = js ''://'' @ r" and l: "lazy_S [] r = Some (b, t)"
    and g: "g = Groups (js ''://'' @ b @ js ''dynamicConvert'') t"
    by (auto simp: prefix_part_def literal_Some split: option.splits)
  from lazy_S_Some [OF l] r g show ?thesis by auto
qed

lemma pptSrcRE_exec_Some:
  assumes "pptSrcRE_exec s = Some g"
  shows "\<exists>x body rest. (x = [] \<or> x = js ''x'') \<and> body \<noteq> [] \<and> (\<forall>c\<in>set body. regex_S c) \<and>
           prefix_group g = js ''://'' @ body @ js ''dynamicConvert'' \<and>
           s = js ''ppt'' @ x @ prefix_group g @ js ''/'' @ taskId_group g @ js ''/'' @ rest \<and>
           taskId_group g \<noteq> [] \<and> (\<forall>c\<in>set (taskId_group g). regex_w c)"
proof -
  from assms obtain r where r: "s = js ''ppt'' @ r" and x: "x_opt r = Some g"
    by (auto simp: pptSrcRE_exec_def literal_Some split: option.splits)
  from x consider "prefix_part r = Some g"
    | r' where "r = js ''x'' @ r'" "prefix_part r' = Some g"
    by (auto simp: x_opt_def literal_Some split: option.splits)
  then show ?thesis
  proof cases
    case 1
    from prefix_part_Some [OF 1] obtain body rest where
      "body \<noteq> []" "\<forall>c\<in>set body. regex_S c"
      "prefix_group g = js ''://'' @ body @ js ''dynamicConvert''"
      "r = prefix_group g @ js ''/'' @ taskId_group g @ js ''/'' @ rest"
      "taskId_group g \<noteq> []" "\<forall>c\<in>set (taskId_group g). regex_w c" by blast
    with r have "([] = [] \<or> [] = js ''x'') \<and> body \<noteq> [] \<and> (\<forall>c\<in>set body. regex_S c) \<and>
           prefix_group g = js ''://'' @ body @ js ''dynamicConvert'' \<and>
           s = js ''ppt'' @ [] @ prefix_group g @ js ''/'' @ taskId_group g @ js ''/'' @ rest \<and>
           taskId_group g \<noteq> [] \<and> (\<forall>c\<in>set (taskId_group g). regex_w c)" by simp
    then show ?thesis by blast
  next
    case 2
    from prefix_part_Some [OF 2(2)] obtain body rest where
      "body \<noteq> []" "\<forall>c\<in>set body. regex_S c"
      "prefix_group g = js ''://'' @ body @ js ''dynamicConvert''"
      "r' = prefix_group g @ js ''/'' @ taskId_group g @ js ''/'' @ rest"
      "taskId_group g \<noteq> []" "\<forall>c\<in>set (taskId_group g). regex_w c" by blast
    with r 2(1) have "(js ''x'' = [] \<or> js ''x'' = js ''x'') \<and> body \<noteq> [] \<and>
           (\<forall>c\<in>set body. regex_S c) \<and>
           prefix_group g = js ''://'' @ body @ js ''dynamicConvert'' \<and>
           s = js ''ppt'' @ js ''x'' @ prefix_group g @ js ''/'' @ taskId_group g @ js ''/'' @ rest \<and>
           taskId_group g \<noteq> [] \<and> (\<forall>c\<in>set (taskId_group g). regex_w c)" by simp
    then show ?thesis by blast
  qed
qed

lemma pptSrcRE_exec_startsWith: "pptSrcRE_exec s = Some g \<Longrightarrow> startsWith s (js ''ppt'')"
  by (auto simp: pptSrcRE_exec_def startsWith_def literal_def split: option.splits if_splits)

text \<open>
  The other direction: every text of the shape \<open>ppt\<close>, an optional \<open>x\<close>, \<open>://\<close>, one or
  more non-space characters, \<open>dynamicConvert/\<close>, one or more word characters and a
  slash is matched.  In \<open>taskId_part_complete\<close> a run of word characters that a slash
  follows is the longest run: this is why \<open>\\w+\<close> never has to give characters back.
\<close>

lemma literal_append: "literal p (p @ r) = Some r"
  by (simp add: literal_def)

lemma slash_not_word: "takeWhile regex_w (js ''/'' @ rest) = [] \<and> dropWhile regex_w (js ''/'' @ rest) = js ''/'' @ rest"
  by (simp add: js_def regex_w_def)

lemma taskId_part_complete:
  assumes "t \<noteq> []" and "\<forall>c\<in>set t. regex_w c"
  shows "taskId_part (js ''/'' @ t @ js ''/'' @ rest) = Some t"
proof -
  from assms(2) have tw: "takeWhile regex_w (t @ js ''/'' @ rest) = t"
    and dw: "dropWhile regex_w (t @ js ''/'' @ rest) = js ''/'' @ rest"
    using slash_not_word [of rest] by simp_all
  show ?thesis
    using assms(1) by (simp add: taskId_part_def literal_append tw dw)
qed

lemma after_S_complete:
  assumes "t \<noteq> []" and "\<forall>c\<in>set t. regex_w c"
  shows "after_S (js ''dynamicConvert'' @ js ''/'' @ t @ js ''/'' @ rest) = Some t"
  by (simp add: after_S_def literal_append taskId_part_complete [OF assms])

lemma lazy_S_complete:
  assumes "body \<noteq> []" and "\<forall>c\<in>set body. regex_S c" and "after_S tail \<noteq> None"
  shows "lazy_S acc (body @ tail) \<noteq> None"
  using assms(1,2)
proof (induction body arbitrary: acc)
  case Nil
  then show ?case by simp
next
  case (Cons c body)
  show ?case
  proof (cases "body = []")
    case True
    with Cons.prems assms(3) show ?thesis by (auto split: option.splits)
  next
    case False
    with Cons.prems Cons.IH [OF False, of "acc @ [c]"] show ?thesis
      by (auto split: option.splits)
  qed
qed

lemma prefix_part_complete:
  assumes "body \<noteq> []" and "\<forall>c\<in>set body. regex_S c" and "t \<noteq> []" and "\<forall>c\<in>set t. regex_w c"
  shows "prefix_part (js ''://'' @ body @ js ''dynamicConvert'' @ js ''/'' @ t @ js ''/'' @ rest) \<noteq> None"
proof -
  have "after_S (js ''dynamicConvert'' @ js ''/'' @ t @ js ''/'' @ rest) \<noteq> None"
    by (simp add: after_S_complete [OF assms(3,4)])
  from lazy_S_complete [OF assms(1,2) this, of "[]"] show ?thesis
    by (auto simp: prefix_part_def literal_append split: option.splits)
qed

lemma pptSrcRE_exec_complete:
  assumes "x = [] \<or> x = js ''x''"
    and "body \<noteq> []" and "\<forall>c\<in>set body. regex_S c" and "t \<noteq> []" and "\<forall>c\<in>set t. regex_w c"
  shows "pptSrcRE_exec
           (js ''ppt'' @ x @ js ''://'' @ body @ js ''dynamicConvert'' @ js ''/'' @ t @ js ''/'' @ rest) \<noteq> None"
proof -
  note pp = prefix_part_complete [OF assms(2-5), of rest]
  from assms(1) show ?thesis
  proof
    assume "x = []"
    with pp show ?thesis
      by (auto simp: pptSrcRE_exec_def literal_append x_opt_def split: option.splits)
  next
    assume x: "x = js ''x''"
    have "x_opt (js ''x'' @ js ''://'' @ body @ js ''dynamicConvert'' @ js ''/'' @ t @ js ''/'' @ rest) \<noteq> None"
      using pp unfolding x_opt_def literal_append by (auto split: option.splits)
    with x show ?thesis
      by (simp add: pptSrcRE_exec_def literal_append)
  qed
qed

section \<open>The classifier: no match, first match\<close>

lemma slide_loop_no_match:
  "\<forall>v\<in>set scenes'. \<forall>p. ppt v = Some p \<longrightarrow>
      \<not> startsWith (src p) (js ''ppt'') \<or> pptSrcRE_exec (src p) = None \<Longrightarrow>
   slide_loop tid u scenes' = (tid, u)"
  by (induction scenes') (auto split: option.splits)

lemma slide_loop_first_match:
  assumes "\<forall>v\<in>set pre. \<forall>p. ppt v = Some p \<longrightarrow>
      \<not> startsWith (src p) (js ''ppt'') \<or> pptSrcRE_exec (src p) = None"
    and "ppt v = Some p" and "pptSrcRE_exec (src p) = Some g"
  shows "slide_loop tid u (pre @ v # post) = (taskId_group g, js ''https'' @ prefix_group g)"
  using assms(1)
proof (induction pre)
  case Nil
  from assms(2,3) pptSrcRE_exec_startsWith [OF assms(3)] show ?case by simp
next
  case (Cons w pre)
  then show ?case by (auto split: option.splits)
qed

lemma Room_slide_loop_no_match:
  "\<forall>v\<in>set scenes'. \<forall>p. ppt v = Some p \<longrightarrow>
      \<not> startsWith (src p) (js ''ppt'') \<or> pptSrcRE_exec (src p) = None \<Longrightarrow>
   Room_slide_loop out tid u scenes' =
     \<lparr>scenesWithoutPPT = out @ map name_only scenes', taskId = tid, url = u\<rparr>"
  by (induction scenes' arbitrary: out) (auto simp: Let_def split: option.splits)

lemma Room_slide_loop_first_match:
  assumes "\<forall>v\<in>set pre. \<forall>p. ppt v = Some p \<longrightarrow>
      \<not> startsWith (src p) (js ''ppt'') \<or> pptSrcRE_exec (src p) = None"
    and "ppt v = Some p" and "pptSrcRE_exec (src p) = Some g"
  shows "Room_slide_loop out tid u (pre @ v # post) =
     \<lparr>scenesWithoutPPT = out @ map name_only pre @ [name_only v],
      taskId = taskId_group g, url = js ''https'' @ prefix_group g\<rparr>"
  using assms(1)
proof (induction pre arbitrary: out)
  case Nil
  from assms(2,3) pptSrcRE_exec_startsWith [OF assms(3)] show ?case by (simp add: Let_def)
next
  case (Cons w pre)
  then show ?case by (auto simp: Let_def split: option.splits)
qed

lemma makeSlideParams_scenesWithoutPPT:
  "scenesWithoutPPT (makeSlideParams scenes') = map name_only scenes'"
  by (simp add: makeSlideParams_def Let_def split: prod.splits)

lemma makeSlideParams_stripped:
  "length (scenesWithoutPPT (makeSlideParams scenes')) = length scenes' \<and>
   (\<forall>i < length scenes'.
      name (scenesWithoutPPT (makeSlideParams scenes') ! i) = name (scenes' ! i) \<and>
      ppt (scenesWithoutPPT (makeSlideParams scenes') ! i) = None)"
  by (simp add: makeSlideParams_scenesWithoutPPT name_only_def)

lemma makeSlideParams_first_match:
  assumes "\<forall>v\<in>set pre. \<forall>p. ppt v = Some p \<longrightarrow> pptSrcRE_exec (src p) = None"
    and "ppt v = Some p" and "pptSrcRE_exec (src p) = Some g"
  shows "makeSlideParams (pre @ v # post) =
     \<lparr>scenesWithoutPPT = map name_only (pre @ v # post),
      taskId = taskId_group g, url = js ''https'' @ prefix_group g\<rparr>"
proof -
  from assms(1) have "\<forall>v\<in>set pre. \<forall>p. ppt v = Some p \<longrightarrow>
      \<not> startsWith (src p) (js ''ppt'') \<or> pptSrcRE_exec (src p) = None" by simp
  from slide_loop_first_match [OF this assms(2,3)] show ?thesis
    by (simp add: makeSlideParams_def)
qed

lemma Room_makeSlideParams_first_match:
  assumes "\<forall>v\<in>set pre. \<forall>p. ppt v = Some p \<longrightarrow> pptSrcRE_exec (src p) = None"
    and "ppt v = Some p" and "pptSrcRE_exec (src p) = Some g"
  shows "Room_makeSlideParams (pre @ v # post) =
     \<lparr>scenesWithoutPPT = map name_only (pre @ [v]),
      taskId = taskId_group g, url = js ''https'' @ prefix_group g\<rparr>"
proof -
  from assms(1) have "\<forall>v\<in>set pre. \<forall>p. ppt v = Some p \<longrightarrow>
      \<not> startsWith (src p) (js ''ppt'') \<or> pptSrcRE_exec (src p) = None" by simp
  from Room_slide_loop_first_match [OF this assms(2,3)] show ?thesis
    by (simp add: Room_makeSlideParams_def)
qed

section \<open>The dispatcher\<close>

lemma classifier_calls_then_respond [simp]: "classifier_calls (then_respond val promise) = []"
  by (cases promise) (simp_all add: then_respond_def)

lemma addApp_requests_then_respond [simp]: "addApp_requests (then_respond val promise) = []"
  by (cases promise) (simp_all add: then_respond_def)

lemma try_addApp_Some:
  "classifier_calls (fst (try_addApp (Some m) request)) = [] \<and>
   addApp_requests (fst (try_addApp (Some m) request)) = [request]"
  by (simp add: try_addApp_def split: sum.splits)

lemma addSlideApp_with_calls:
  "classifier_calls (fst (addSlideApp_with classifier (Some m) sp ti scenes')) = [scenes']"
  using try_addApp_Some
  by (simp add: addSlideApp_with_def Let_def split: prod.splits if_splits) (metis fst_conv)

lemma addSlideApp_with_requests:
  "addApp_requests (fst (addSlideApp_with classifier (Some m) sp ti scenes')) =
     [if taskId (classifier scenes') \<noteq> [] \<and> url (classifier scenes') \<noteq> [] then
        \<lparr>kind = js ''Slide'',
         options = \<lparr>scenePath = sp, title = ti, scenes = Some (scenesWithoutPPT (classifier scenes'))\<rparr>,
         attributes = JObj [(js ''taskId'', JStr (taskId (classifier scenes'))),
                            (js ''url'', JStr (url (classifier scenes')))]\<rparr>
      else
        \<lparr>kind = BuiltinApps_DocsViewer,
         options = \<lparr>scenePath = sp, title = ti, scenes = Some scenes'\<rparr>,
         attributes = JUndefined\<rparr>]"
  using try_addApp_Some
  by (simp add: addSlideApp_with_def Let_def split: prod.splits if_splits) (metis fst_conv)

lemma classifier_calls_append [simp]:
  "classifier_calls (es @ fs) = classifier_calls es @ classifier_calls fs"
  by (induction es rule: classifier_calls.induct) simp_all

lemma addApp_requests_append [simp]:
  "addApp_requests (es @ fs) = addApp_requests es @ addApp_requests fs"
  by (induction es rule: addApp_requests.induct) simp_all

lemma addApp_with_Slide:
  assumes "scenes options' = Some scenes'"
  shows "classifier_calls (events (addApp_with (addSlideApp_with classifier) (Some m) (js ''Slide'') options' attributes')) = [scenes']"
    and "addApp_requests (events (addApp_with (addSlideApp_with classifier) (Some m) (js ''Slide'') options' attributes')) =
     [if taskId (classifier scenes') \<noteq> [] \<and> url (classifier scenes') \<noteq> [] then
        \<lparr>kind = js ''Slide'',
         options = \<lparr>scenePath = scenePath options', title = title options',
                    scenes = Some (scenesWithoutPPT (classifier scenes'))\<rparr>,
         attributes = JObj [(js ''taskId'', JStr (taskId (classifier scenes'))),
                            (js ''url'', JStr (url (classifier scenes')))]\<rparr>
      else
        \<lparr>kind = BuiltinApps_DocsViewer,
         options = \<lparr>scenePath = scenePath options', title = title options', scenes = Some scenes'\<rparr>,
         attributes = JUndefined\<rparr>]"
proof -
  obtain es promise where r: "addSlideApp_with classifier (Some m) (scenePath options') (title options') scenes' = (es, promise)"
    by (cases "addSlideApp_with classifier (Some m) (scenePath options') (title options') scenes'")
  from addSlideApp_with_calls [of classifier m "scenePath options'" "title options'" scenes'] r
  have c: "classifier_calls es = [scenes']" by simp
  from addSlideApp_with_requests [of classifier m "scenePath options'" "title options'" scenes'] r
  have q: "addApp_requests es = [if taskId (classifier scenes') \<noteq> [] \<and> url (classifier scenes') \<noteq> [] then
        \<lparr>kind = js ''Slide'',
         options = \<lparr>scenePath = scenePath options', title = title options',
                    scenes = Some (scenesWithoutPPT (classifier scenes'))\<rparr>,
         attributes = JObj [(js ''taskId'', JStr (taskId (classifier scenes'))),
                            (js ''url'', JStr (url (classifier scenes')))]\<rparr>
      else
        \<lparr>kind = BuiltinApps_DocsViewer,
         options = \<lparr>scenePath = scenePath options', title = title options', scenes = Some scenes'\<rparr>,
         attributes = JUndefined\<rparr>]" by simp
  have e: "events (addApp_with (addSlideApp_with classifier) (Some m) (js ''Slide'') options' attributes')
      = es @ then_respond appId_value promise"
    using assms r by (simp add: addApp_with_def returns_def)
  show "classifier_calls (events (addApp_with (addSlideApp_with classifier) (Some m) (js ''Slide'') options' attributes')) = [scenes']"
    unfolding e using c by simp
  show "addApp_requests (events (addApp_with (addSlideApp_with classifier) (Some m) (js ''Slide'') options' attributes')) =
     [if taskId (classifier scenes') \<noteq> [] \<and> url (classifier scenes') \<noteq> [] then
        \<lparr>kind = js ''Slide'',
         options = \<lparr>scenePath = scenePath options', title = title options',
                    scenes = Some (scenesWithoutPPT (classifier scenes'))\<rparr>,
         attributes = JObj [(js ''taskId'', JStr (taskId (classifier scenes'))),
                            (js ''url'', JStr (url (classifier scenes')))]\<rparr>
      else
        \<lparr>kind = BuiltinApps_DocsViewer,
         options = \<lparr>scenePath = scenePath options', title = title options', scenes = Some scenes'\<rparr>,
         attributes = JUndefined\<rparr>]"
    unfolding e using q by simp
qed

lemma addApp_with_other:
  assumes "kind' \<noteq> js ''Slide''"
  shows "classifier_calls (events (addApp_with slideApp (Some m) kind' options' attributes')) = []"
    and "addApp_requests (events (addApp_with slideApp (Some m) kind' options' attributes')) =
           [\<lparr>kind = kind', options = options', attributes = attributes'\<rparr>]"
  using assms
  by (simp_all add: addApp_with_def returns_def throws_def Let_def split: sum.splits)

text \<open>
  The request of kind \<open>Slide\<close> or \<open>DocsViewer\<close>, for each file.  In the bridge classes
  the scenes of a \<open>Slide\<close> request are the name-only copies of all the scenes received;
  in \<open>Room.ts\<close> they are what the classifier of that file has pushed.
\<close>

lemma addApp_Slide_requests:
  assumes "scenes options' = Some scenes'"
  shows "classifier_calls (events (addApp (Some m) (js ''Slide'') options' attributes')) = [scenes'] \<and>
         addApp_requests (events (addApp (Some m) (js ''Slide'') options' attributes')) =
           [let p = makeSlideParams scenes' in
            if taskId p \<noteq> [] \<and> url p \<noteq> [] then
              \<lparr>kind = js ''Slide'',
               options = \<lparr>scenePath = scenePath options', title = title options',
                          scenes = Some (map name_only scenes')\<rparr>,
               attributes = JObj [(js ''taskId'', JStr (taskId p)), (js ''url'', JStr (url p))]\<rparr>
            else
              \<lparr>kind = BuiltinApps_DocsViewer,
               options = \<lparr>scenePath = scenePath options', title = title options', scenes = Some scenes'\<rparr>,
               attributes = JUndefined\<rparr>]"
  using addApp_with_Slide [OF assms, of makeSlideParams m attributes']
  by (simp add: addApp_def addSlideApp_def Let_def makeSlideParams_scenesWithoutPPT)

lemma registerRoom_addApp_Slide_requests:
  assumes "scenes options' = Some scenes'"
  shows "classifier_calls (events (registerRoom_addApp (Some m) (js ''Slide'') options' attributes')) = [scenes'] \<and>
         addApp_requests (events (registerRoom_addApp (Some m) (js ''Slide'') options' attributes')) =
           [let p = Room_makeSlideParams scenes' in
            if taskId p \<noteq> [] \<and> url p \<noteq> [] then
              \<lparr>kind = js ''Slide'',
               options = \<lparr>scenePath = scenePath options', title = title options',
                          scenes = Some (scenesWithoutPPT p)\<rparr>,
               attributes = JObj [(js ''taskId'', JStr (taskId p)), (js ''url'', JStr (url p))]\<rparr>
            else
              \<lparr>kind = BuiltinApps_DocsViewer,
               options = \<lparr>scenePath = scenePath options', title = title options', scenes = Some scenes'\<rparr>,
               attributes = JUndefined\<rparr>]"
  using addApp_with_Slide [OF assms, of Room_makeSlideParams m attributes']
  by (simp add: registerRoom_addApp_def Room_addSlideApp_def Let_def)

section \<open>Evaluations\<close>

lemma exec_ppt_example:
  "pptSrcRE_exec (js ''ppt://cdn.example.com/dynamicConvert/abc123/1.slide'') =
     Some (Groups (js ''://cdn.example.com/dynamicConvert'') (js ''abc123''))"
  by code_simp

lemma exec_pptx_example:
  "pptSrcRE_exec (js ''pptx://host/path/dynamicConvert/task42/2.slide'') =
     Some (Groups (js ''://host/path/dynamicConvert'') (js ''task42''))"
  by code_simp

lemma makeSlideParams_example_options:
  "makeSlideParams [slide_scene ''1'' ''ppt://cdn.example.com/dynamicConvert/abc123/1.slide'',
                    slide_scene ''2'' ''ppt://cdn.example.com/dynamicConvert/abc123/2.slide''] =
     \<lparr>scenesWithoutPPT = [plain_scene ''1'', plain_scene ''2''], taskId = js ''abc123'',
      url = js ''https://cdn.example.com/dynamicConvert''\<rparr>"
  by code_simp

section \<open>The claims\<close>

text \<open>
  Claim C1, in \<open>Room.ts\<close>.  The claim asks that the \<open>Slide\<close> app gets, as the scenes of
  its options, the stripped list of the scene list supplied.  For a converted
  presentation of two scenes, both with a matching source, the \<open>addApp\<close> that
  \<open>registerRoom\<close> registers asks the manager for a \<open>Slide\<close> app with one scene: the
  classifier of \<open>Room.ts\<close> has left its loop at the first match.
  \<open>RoomAsyncBridge.addApp\<close> asks for the app with both scenes, name only
  (\<open>addApp_Slide_requests\<close> is the claim for that method, on every request).
\<close>

theorem registerRoom_addApp_Slide_cut_scenes:
  "scenes example_options =
     Some [slide_scene ''1'' ''ppt://cdn.example.com/dynamicConvert/abc123/1.slide'',
           slide_scene ''2'' ''ppt://cdn.example.com/dynamicConvert/abc123/2.slide''] \<and>
   addApp_requests (events (registerRoom_addApp (Some example_manager) (js ''Slide'') example_options JNull)) =
     [\<lparr>kind = js ''Slide'',
       options = \<lparr>scenePath = Some (js ''/deck''), title = Some (js ''Deck''),
                  scenes = Some [plain_scene ''1'']\<rparr>,
       attributes = JObj [(js ''taskId'', JStr (js ''abc123'')),
                          (js ''url'', JStr (js ''https://cdn.example.com/dynamicConvert''))]\<rparr>] \<and>
   addApp_requests (events (addApp (Some example_manager) (js ''Slide'') example_options JNull)) =
     [\<lparr>kind = js ''Slide'',
       options = \<lparr>scenePath = Some (js ''/deck''), title = Some (js ''Deck''),
                  scenes = Some [plain_scene ''1'', plain_scene ''2'']\<rparr>,
       attributes = JObj [(js ''taskId'', JStr (js ''abc123'')),
                          (js ''url'', JStr (js ''https://cdn.example.com/dynamicConvert''))]\<rparr>]"
  by code_simp

text \<open>
  Claim C2, in \<open>Room.ts\<close>.  The claim asks for one stripped entry for each scene.
  On two scenes of a converted presentation, both with a matching source, the
  \<open>makeSlideParams\<close> of \<open>Room.ts\<close> returns one stripped entry: the \<open>break\<close> at the
  first match leaves the loop before the second scene is pushed.  The
  \<open>makeSlideParams\<close> of the bridge classes returns two
  (\<open>makeSlideParams_stripped\<close> is the claim for that function, on every list).
\<close>

theorem Room_makeSlideParams_drops_later_scenes:
  "length (scenesWithoutPPT (Room_makeSlideParams
      [slide_scene ''1'' ''ppt://cdn.example.com/dynamicConvert/abc123/1.slide'',
       slide_scene ''2'' ''ppt://cdn.example.com/dynamicConvert/abc123/2.slide''])) = 1 \<and>
   length [slide_scene ''1'' ''ppt://cdn.example.com/dynamicConvert/abc123/1.slide'',
           slide_scene ''2'' ''ppt://cdn.example.com/dynamicConvert/abc123/2.slide''] = 2 \<and>
   length (scenesWithoutPPT (makeSlideParams
      [slide_scene ''1'' ''ppt://cdn.example.com/dynamicConvert/abc123/1.slide'',
       slide_scene ''2'' ''ppt://cdn.example.com/dynamicConvert/abc123/2.slide''])) = 2"
  by code_simp

text \<open>
  Claim C3, in \<open>Room.ts\<close>.  The claim asks that a matching scene after the first one
  still appears, name only, in the stripped output.  With a second matching scene
  after the first, the \<open>makeSlideParams\<close> of \<open>Room.ts\<close> returns the task identifier
  and url of the first match, and a stripped list that ends at the first match: the
  later scene is not in it.  The \<open>makeSlideParams\<close> of the bridge classes returns the
  same task identifier and url and all three stripped scenes
  (\<open>makeSlideParams_first_match\<close> is the claim for that function, on every list).
\<close>

theorem Room_makeSlideParams_later_match_missing:
  "Room_makeSlideParams
      [plain_scene ''1'',
       slide_scene ''2'' ''ppt://cdn.example.com/dynamicConvert/taskA/2.slide'',
       slide_scene ''3'' ''pptx://cdn.example.com/dynamicConvert/taskB/3.slide''] =
     \<lparr>scenesWithoutPPT = [plain_scene ''1'', plain_scene ''2''],
      taskId = js ''taskA'', url = js ''https://cdn.example.com/dynamicConvert''\<rparr> \<and>
   makeSlideParams
      [plain_scene ''1'',
       slide_scene ''2'' ''ppt://cdn.example.com/dynamicConvert/taskA/2.slide'',
       slide_scene ''3'' ''pptx://cdn.example.com/dynamicConvert/taskB/3.slide''] =
     \<lparr>scenesWithoutPPT = [plain_scene ''1'', plain_scene ''2'', plain_scene ''3''],
      taskId = js ''taskA'', url = js ''https://cdn.example.com/dynamicConvert''\<rparr>"
  by code_simp

text \<open>
  Claim C4.  When no scene has a source that matches the pattern (the scene has no
  \<open>ppt\<close>, or its source does not start with \<open>ppt\<close>, or the pattern fails on it), the
  classifier returns the empty string for the task identifier and for the url, and the
  stripped list is the list of the scenes received, each with its name alone: one
  entry for each scene, at the same index, with no \<open>ppt\<close>; in both files.
\<close>

theorem no_match_empty_ids:
  assumes "\<forall>v\<in>set scenes'. \<forall>p. ppt v = Some p \<longrightarrow>
             \<not> startsWith (src p) (js ''ppt'') \<or> pptSrcRE_exec (src p) = None"
  shows "makeSlideParams scenes' =
           \<lparr>scenesWithoutPPT = map name_only scenes', taskId = [], url = []\<rparr> \<and>
         Room_makeSlideParams scenes' =
           \<lparr>scenesWithoutPPT = map name_only scenes', taskId = [], url = []\<rparr> \<and>
         length (scenesWithoutPPT (makeSlideParams scenes')) = length scenes' \<and>
         length (scenesWithoutPPT (Room_makeSlideParams scenes')) = length scenes' \<and>
         (\<forall>i < length scenes'.
            scenesWithoutPPT (makeSlideParams scenes') ! i = \<lparr>name = name (scenes' ! i), ppt = None\<rparr> \<and>
            scenesWithoutPPT (Room_makeSlideParams scenes') ! i = \<lparr>name = name (scenes' ! i), ppt = None\<rparr>)"
  using slide_loop_no_match [OF assms, of "[]" "[]"]
    Room_slide_loop_no_match [OF assms, of "[]" "[]" "[]"]
  by (simp add: makeSlideParams_def Room_makeSlideParams_def name_only_def)

theorem no_match_empty_ids_witness:
  "ppt (plain_scene ''cover'') = None \<and>
   \<not> startsWith (js ''https://cdn.example.com/1.png'') (js ''ppt'') \<and>
   pptSrcRE_exec (js ''ppt://cdn.example.com/static/2.slide'') = None \<and>
   makeSlideParams [plain_scene ''cover'', slide_scene ''1'' ''https://cdn.example.com/1.png'',
                    slide_scene ''2'' ''ppt://cdn.example.com/static/2.slide''] =
     \<lparr>scenesWithoutPPT = [plain_scene ''cover'', plain_scene ''1'', plain_scene ''2''],
      taskId = [], url = []\<rparr> \<and>
   Room_makeSlideParams [plain_scene ''cover'', slide_scene ''1'' ''https://cdn.example.com/1.png'',
                    slide_scene ''2'' ''ppt://cdn.example.com/static/2.slide''] =
     \<lparr>scenesWithoutPPT = [plain_scene ''cover'', plain_scene ''1'', plain_scene ''2''],
      taskId = [], url = []\<rparr>"
proof -
  have c: "ppt (plain_scene ''cover'') = None"
    by (simp add: plain_scene_def)
  have a: "pptSrcRE_exec (js ''ppt://cdn.example.com/static/2.slide'') = None"
    by code_simp
  have b: "\<not> startsWith (js ''https://cdn.example.com/1.png'') (js ''ppt'')"
    by code_simp
  have h: "\<forall>v\<in>set [plain_scene ''cover'', slide_scene ''1'' ''https://cdn.example.com/1.png'',
              slide_scene ''2'' ''ppt://cdn.example.com/static/2.slide''].
      \<forall>p. ppt v = Some p \<longrightarrow> \<not> startsWith (src p) (js ''ppt'') \<or> pptSrcRE_exec (src p) = None"
    using a b by (auto simp: plain_scene_def slide_scene_def)
  have s: "map name_only [plain_scene ''cover'', slide_scene ''1'' ''https://cdn.example.com/1.png'',
                    slide_scene ''2'' ''ppt://cdn.example.com/static/2.slide''] =
      [plain_scene ''cover'', plain_scene ''1'', plain_scene ''2'']"
    by (simp add: name_only_def plain_scene_def slide_scene_def)
  from no_match_empty_ids [OF h] a b c show ?thesis
    unfolding s by simp
qed

text \<open>
  Claim C5.  When the first scene whose source matches is \<open>v\<close>, the url is \<open>https\<close>
  followed by the group \<open>prefix\<close>, which is the part of the source from \<open>://\<close> to
  \<open>dynamicConvert\<close>, both included; the source itself is \<open>ppt\<close> or \<open>pptx\<close>, the
  group \<open>prefix\<close>, a slash, the task identifier, a slash, and the rest.  So the url has
  the scheme \<open>https\<close> whatever the source had.  The source
  \<open>ppt://cdn.example.com/dynamicConvert/abc123/1.slide\<close> gives \<open>abc123\<close> and
  \<open>https://cdn.example.com/dynamicConvert\<close>, and
  \<open>pptx://host/path/dynamicConvert/task42/2.slide\<close> gives \<open>task42\<close> and
  \<open>https://host/path/dynamicConvert\<close>.
\<close>

theorem url_https_prefix:
  "(\<forall>pre v p g post.
      (\<forall>w\<in>set pre. \<forall>q. ppt w = Some q \<longrightarrow> pptSrcRE_exec (src q) = None) \<and>
      ppt v = Some p \<and> pptSrcRE_exec (src p) = Some g \<longrightarrow>
      url (makeSlideParams (pre @ v # post)) = js ''https'' @ prefix_group g \<and>
      taskId (makeSlideParams (pre @ v # post)) = taskId_group g \<and>
      (\<exists>x body rest. (x = [] \<or> x = js ''x'') \<and>
         prefix_group g = js ''://'' @ body @ js ''dynamicConvert'' \<and>
         src p = js ''ppt'' @ x @ prefix_group g @ js ''/'' @ taskId_group g @ js ''/'' @ rest)) \<and>
   taskId (makeSlideParams [slide_scene ''1'' ''ppt://cdn.example.com/dynamicConvert/abc123/1.slide'']) =
     js ''abc123'' \<and>
   url (makeSlideParams [slide_scene ''1'' ''ppt://cdn.example.com/dynamicConvert/abc123/1.slide'']) =
     js ''https://cdn.example.com/dynamicConvert'' \<and>
   taskId (makeSlideParams [slide_scene ''2'' ''pptx://host/path/dynamicConvert/task42/2.slide'']) =
     js ''task42'' \<and>
   url (makeSlideParams [slide_scene ''2'' ''pptx://host/path/dynamicConvert/task42/2.slide'']) =
     js ''https://host/path/dynamicConvert''"
proof -
  have general: "url (makeSlideParams (pre @ v # post)) = js ''https'' @ prefix_group g \<and>
      taskId (makeSlideParams (pre @ v # post)) = taskId_group g \<and>
      (\<exists>x body rest. (x = [] \<or> x = js ''x'') \<and>
         prefix_group g = js ''://'' @ body @ js ''dynamicConvert'' \<and>
         src p = js ''ppt'' @ x @ prefix_group g @ js ''/'' @ taskId_group g @ js ''/'' @ rest)"
    if pre: "\<forall>w\<in>set pre. \<forall>q. ppt w = Some q \<longrightarrow> pptSrcRE_exec (src q) = None"
      and v: "ppt v = Some p" and g: "pptSrcRE_exec (src p) = Some g"
    for pre v p g post
  proof -
    from pptSrcRE_exec_Some [OF g] obtain x body rest where
      "x = [] \<or> x = js ''x''" "prefix_group g = js ''://'' @ body @ js ''dynamicConvert''"
      "src p = js ''ppt'' @ x @ prefix_group g @ js ''/'' @ taskId_group g @ js ''/'' @ rest"
      by blast
    then have "\<exists>x body rest. (x = [] \<or> x = js ''x'') \<and>
         prefix_group g = js ''://'' @ body @ js ''dynamicConvert'' \<and>
         src p = js ''ppt'' @ x @ prefix_group g @ js ''/'' @ taskId_group g @ js ''/'' @ rest"
      by blast
    with makeSlideParams_first_match [OF pre v g, of post] show ?thesis by simp
  qed
  have ex1: "makeSlideParams [slide_scene ''1'' ''ppt://cdn.example.com/dynamicConvert/abc123/1.slide''] =
     \<lparr>scenesWithoutPPT = [plain_scene ''1''], taskId = js ''abc123'',
      url = js ''https://cdn.example.com/dynamicConvert''\<rparr>"
    by code_simp
  have ex2: "makeSlideParams [slide_scene ''2'' ''pptx://host/path/dynamicConvert/task42/2.slide''] =
     \<lparr>scenesWithoutPPT = [plain_scene ''2''], taskId = js ''task42'',
      url = js ''https://host/path/dynamicConvert''\<rparr>"
    by code_simp
  have all: "\<forall>pre v p g post.
      (\<forall>w\<in>set pre. \<forall>q. ppt w = Some q \<longrightarrow> pptSrcRE_exec (src q) = None) \<and>
      ppt v = Some p \<and> pptSrcRE_exec (src p) = Some g \<longrightarrow>
      url (makeSlideParams (pre @ v # post)) = js ''https'' @ prefix_group g \<and>
      taskId (makeSlideParams (pre @ v # post)) = taskId_group g \<and>
      (\<exists>x body rest. (x = [] \<or> x = js ''x'') \<and>
         prefix_group g = js ''://'' @ body @ js ''dynamicConvert'' \<and>
         src p = js ''ppt'' @ x @ prefix_group g @ js ''/'' @ taskId_group g @ js ''/'' @ rest)"
  proof (intro allI impI, elim conjE)
    fix pre post :: "SceneDefinition list" and v :: SceneDefinition and p :: PptDescription and g
    assume "\<forall>w\<in>set pre. \<forall>q. ppt w = Some q \<longrightarrow> pptSrcRE_exec (src q) = None"
      and "ppt v = Some p" and "pptSrcRE_exec (src p) = Some g"
    then show "url (makeSlideParams (pre @ v # post)) = js ''https'' @ prefix_group g \<and>
      taskId (makeSlideParams (pre @ v # post)) = taskId_group g \<and>
      (\<exists>x body rest. (x = [] \<or> x = js ''x'') \<and>
         prefix_group g = js ''://'' @ body @ js ''dynamicConvert'' \<and>
         src p = js ''ppt'' @ x @ prefix_group g @ js ''/'' @ taskId_group g @ js ''/'' @ rest)"
      by (rule general)
  qed
  have t1: "taskId (makeSlideParams [slide_scene ''1'' ''ppt://cdn.example.com/dynamicConvert/abc123/1.slide'']) =
     js ''abc123''"
    and u1: "url (makeSlideParams [slide_scene ''1'' ''ppt://cdn.example.com/dynamicConvert/abc123/1.slide'']) =
     js ''https://cdn.example.com/dynamicConvert''"
    by (simp_all add: ex1)
  have t2: "taskId (makeSlideParams [slide_scene ''2'' ''pptx://host/path/dynamicConvert/task42/2.slide'']) =
     js ''task42''"
    and u2: "url (makeSlideParams [slide_scene ''2'' ''pptx://host/path/dynamicConvert/task42/2.slide'']) =
     js ''https://host/path/dynamicConvert''"
    by (simp_all add: ex2)
  from all t1 u1 t2 u2 show ?thesis by (intro conjI)
qed

theorem url_https_prefix_witness:
  "ppt (slide_scene ''3'' ''pptx://host/path/dynamicConvert/task42/2.slide'') =
     Some \<lparr>src = js ''pptx://host/path/dynamicConvert/task42/2.slide'', width = 1024, height = 768\<rparr> \<and>
   pptSrcRE_exec (js ''pptx://host/path/dynamicConvert/task42/2.slide'') =
     Some (Groups (js ''://host/path/dynamicConvert'') (js ''task42'')) \<and>
   url (makeSlideParams [plain_scene ''1'', slide_scene ''3'' ''pptx://host/path/dynamicConvert/task42/2.slide'',
                         slide_scene ''4'' ''ppt://other/dynamicConvert/task43/1.slide'']) =
     js ''https'' @ js ''://host/path/dynamicConvert''"
proof -
  have h1: "\<forall>w\<in>set [plain_scene ''1'']. \<forall>q. ppt w = Some q \<longrightarrow> pptSrcRE_exec (src q) = None"
    by (simp add: plain_scene_def)
  have h2: "ppt (slide_scene ''3'' ''pptx://host/path/dynamicConvert/task42/2.slide'') =
     Some \<lparr>src = js ''pptx://host/path/dynamicConvert/task42/2.slide'', width = 1024, height = 768\<rparr>"
    by (simp add: slide_scene_def)
  have h3: "pptSrcRE_exec (src \<lparr>src = js ''pptx://host/path/dynamicConvert/task42/2.slide'', width = 1024, height = 768\<rparr>) =
     Some (Groups (js ''://host/path/dynamicConvert'') (js ''task42''))"
    using exec_pptx_example by simp
  from url_https_prefix [THEN conjunct1, rule_format, OF conjI [OF h1 conjI [OF h2 h3]],
      of "[slide_scene ''4'' ''ppt://other/dynamicConvert/task43/1.slide'']"]
    h2 h3 show ?thesis by simp
qed

text \<open>
  Claim C6.  An \<open>addApp\<close> request of a kind other than \<open>Slide\<close>, with a window
  manager active, makes no call to the classifier and asks the manager for one app,
  with the kind, the options and the attributes as they were received; in both files.
\<close>

theorem addApp_other_kind_forwards:
  assumes "kind' \<noteq> js ''Slide''"
  shows "classifier_calls (events (addApp (Some m) kind' options' attributes')) = [] \<and>
         addApp_requests (events (addApp (Some m) kind' options' attributes')) =
           [\<lparr>kind = kind', options = options', attributes = attributes'\<rparr>] \<and>
         classifier_calls (events (registerRoom_addApp (Some m) kind' options' attributes')) = [] \<and>
         addApp_requests (events (registerRoom_addApp (Some m) kind' options' attributes')) =
           [\<lparr>kind = kind', options = options', attributes = attributes'\<rparr>]"
  using addApp_with_other [OF assms, of addSlideApp m options' attributes']
    addApp_with_other [OF assms, of Room_addSlideApp m options' attributes']
  by (simp add: addApp_def registerRoom_addApp_def Let_def)

theorem addApp_other_kind_forwards_witness:
  "js ''DocsViewer'' \<noteq> js ''Slide'' \<and>
   classifier_calls (events (addApp (Some example_manager) (js ''DocsViewer'') example_options JNull)) = [] \<and>
   addApp_requests (events (addApp (Some example_manager) (js ''DocsViewer'') example_options JNull)) =
     [\<lparr>kind = js ''DocsViewer'', options = example_options, attributes = JNull\<rparr>]"
proof -
  have h: "js ''DocsViewer'' \<noteq> js ''Slide''" by (simp add: js_def)
  from addApp_other_kind_forwards [OF h, of example_manager example_options JNull] h
  show ?thesis by simp
qed

text \<open>
  Claim C7, as amended.  \<open>setScenePath\<close> and \<open>setSceneIndex\<close> make their
  collaborator call, to the manager or to the room, inside \<open>try\<close>: no exception leaves
  them, and an \<open>Error\<close> that the call throws is given to the response callback as
  \<open>JSON.stringify({ __error: { message, jsStack } })\<close>.
\<close>

theorem setScenePath_setSceneIndex_catch:
  "uncaught (setScenePath manager room path) = None \<and>
   uncaught (setSceneIndex manager room i) = None \<and>
   (manager_setMainViewScenePath m path = Some e \<longrightarrow>
      setScenePath (Some m) room path =
        returns [Manager_setMainViewScenePath path,
                 ResponseCallback (JSON_stringify
                   (JObj [(js ''__error'', JObj [(js ''message'', JStr (message e)), (js ''jsStack'', JStr (stack e))])]))]) \<and>
   (room_setScenePath room path = Some e \<longrightarrow>
      setScenePath None room path =
        returns [Room_setScenePath path,
                 ResponseCallback (JSON_stringify
                   (JObj [(js ''__error'', JObj [(js ''message'', JStr (message e)), (js ''jsStack'', JStr (stack e))])]))]) \<and>
   (manager_setMainViewSceneIndex m i = Some e \<longrightarrow>
      setSceneIndex (Some m) room i =
        returns [Manager_setMainViewSceneIndex i,
                 ResponseCallback (JSON_stringify
                   (JObj [(js ''__error'', JObj [(js ''message'', JStr (message e)), (js ''jsStack'', JStr (stack e))])]))]) \<and>
   (room_setSceneIndex room i = Some e \<longrightarrow>
      setSceneIndex None room i =
        returns [Room_setSceneIndex i,
                 ResponseCallback (JSON_stringify
                   (JObj [(js ''__error'', JObj [(js ''message'', JStr (message e)), (js ''jsStack'', JStr (stack e))])]))])"
  by (simp add: setScenePath_def setSceneIndex_def returns_def error_payload_def Let_def
      split: option.splits prod.splits)

theorem setScenePath_setSceneIndex_catch_witness:
  "room_setScenePath failing_room (js ''/nowhere'') = Some example_error \<and>
   manager_setMainViewSceneIndex failing_manager 7 = Some example_error \<and>
   setScenePath None failing_room (js ''/nowhere'') =
     returns [Room_setScenePath (js ''/nowhere''),
              ResponseCallback (JSON_stringify
                (JObj [(js ''__error'', JObj [(js ''message'', JStr (js ''invalid scene path'')),
                                              (js ''jsStack'', JStr (js ''at setScenePath''))])]))] \<and>
   responses (events (setSceneIndex (Some failing_manager) failing_room 7)) =
     [JSON_stringify
        (JObj [(js ''__error'', JObj [(js ''message'', JStr (js ''invalid scene path'')),
                                      (js ''jsStack'', JStr (js ''at setScenePath''))])])]"
proof -
  have h1: "room_setScenePath failing_room (js ''/nowhere'') = Some example_error"
    and h2: "manager_setMainViewSceneIndex failing_manager 7 = Some example_error"
    by (simp_all add: failing_room_def failing_manager_def)
  from setScenePath_setSceneIndex_catch
    [of None failing_room "js ''/nowhere''" 7 failing_manager example_error] h1 h2
  show ?thesis
    by (simp add: example_error_def returns_def)
qed

text \<open>
  The claim as it stands says this of every asynchronous method.  \<open>redo\<close> has no
  \<open>try\<close>: when \<open>room.redo()\<close> throws, the exception leaves the method and the response
  callback is not called.
\<close>

theorem redo_throws_counterexample:
  "uncaught (redo failing_room) = Some (Thrown example_error) \<and>
   responses (events (redo failing_room)) = []"
  by (simp add: redo_def failing_room_def throws_def)

text \<open>
  Claim C8.  An \<open>addApp\<close> request of kind \<open>Slide\<close> with no window manager does
  nothing: the response callback is never called, with a result or with an error, and
  no exception leaves the method.  In \<open>Room.ts\<close> the logger is called, and nothing
  else.
\<close>

theorem addApp_without_manager_silent:
  "addApp None (js ''Slide'') options' attributes' = returns [] \<and>
   responses (events (addApp None (js ''Slide'') options' attributes')) = [] \<and>
   responses (events (registerRoom_addApp None (js ''Slide'') options' attributes')) = [] \<and>
   uncaught (registerRoom_addApp None (js ''Slide'') options' attributes') = None"
  by (simp add: addApp_def registerRoom_addApp_def addApp_with_def returns_def)

theorem addApp_without_manager_silent_witness:
  "responses (events (addApp None (js ''Slide'') example_options JNull)) = [] \<and>
   uncaught (addApp None (js ''Slide'') example_options JNull) = None"
  using addApp_without_manager_silent [of example_options JNull]
  by (simp add: returns_def)






end
